theory Spec2Isabelle
  imports Complex_Main "HOL-Library.Char_ord" "HOL-Library.List_Lexorder" "HOL-Library.Multiset"
begin

section \<open>Python values, exceptions and dictionaries\<close>

text \<open>
  The prediction pipeline of \<^verbatim>\<open>backend/api/app/services/ml_service.py\<close> works on
  loosely typed dictionaries (\<^verbatim>\<open>Dict[str, Any]\<close>). A value is one of the scalars a JSON
  request can carry. Python floats are modelled as exact real numbers: rounding error, NaN and
  the infinities of IEEE arithmetic are outside the model. Python's unbounded integers
  are \<^typ>\<open>int\<close>.
\<close>

datatype pyval = PNone | PBool bool | PInt int | PFloat real | PStr string

datatype pyexn =
    KeyError string
  | TypeError
  | ValueError
  | IndexError
  | AttributeError
  | LibraryError string

text \<open>
  A dictionary is an association list in insertion order; lookups go through
  \<^const>\<open>map_of\<close>. A Python dict has pairwise distinct keys.
\<close>

type_synonym pydict = "(string \<times> pyval) list"

type_synonym 'a raising = "pyexn + 'a"

definition bind_exn :: "'a raising \<Rightarrow> ('a \<Rightarrow> 'b raising) \<Rightarrow> 'b raising" where
  "bind_exn m f = (case m of Inl e \<Rightarrow> Inl e | Inr x \<Rightarrow> f x)"

text \<open>\<^verbatim>\<open>try: body  except Exception as e: handler(e)\<close>\<close>

definition try_except :: "'a raising \<Rightarrow> (pyexn \<Rightarrow> 'a raising) \<Rightarrow> 'a raising" where
  "try_except body handler = (case body of Inl e \<Rightarrow> handler e | Inr x \<Rightarrow> Inr x)"

text \<open>\<^verbatim>\<open>data[k]\<close> raises KeyError on a missing key; \<^verbatim>\<open>data.get(k, d)\<close> does not.\<close>

definition getitem :: "pydict \<Rightarrow> string \<Rightarrow> pyval raising" where
  "getitem data k = (case map_of data k of None \<Rightarrow> Inl (KeyError k) | Some v \<Rightarrow> Inr v)"

definition dict_get :: "pydict \<Rightarrow> string \<Rightarrow> pyval \<Rightarrow> pyval" where
  "dict_get data k d = (case map_of data k of None \<Rightarrow> d | Some v \<Rightarrow> v)"

text \<open>
  The numeric value of an operand of \<^verbatim>\<open>-\<close>, \<^verbatim>\<open>/\<close> and \<^verbatim>\<open>>\<close>: bool is a subclass of
  int; a string or None operand raises TypeError.
\<close>

fun num_of :: "pyval \<Rightarrow> real raising" where
  "num_of (PInt i) = Inr (of_int i)"
| "num_of (PFloat x) = Inr x"
| "num_of (PBool b) = Inr (if b then 1 else 0)"
| "num_of PNone = Inl TypeError"
| "num_of (PStr s) = Inl TypeError"

text \<open>\<^verbatim>\<open>int(x)\<close> truncates towards zero.\<close>

definition py_int :: "real \<Rightarrow> int" where
  "py_int x = (if 0 \<le> x then \<lfloor>x\<rfloor> else \<lceil>x\<rceil>)"

text \<open>\<^verbatim>\<open>round(x, n)\<close>: to the nearest multiple of \<open>10\<^sup>-\<^sup>n\<close>, ties to even.\<close>

definition round_half_even :: "real \<Rightarrow> int" where
  "round_half_even x =
     (let f = \<lfloor>x\<rfloor>; d = x - of_int f
      in if d < 1 / 2 then f
         else if 1 / 2 < d then f + 1
         else if even f then f else f + 1)"

definition py_round :: "real \<Rightarrow> nat \<Rightarrow> real" where
  "py_round x n = of_int (round_half_even (x * 10 ^ n)) / 10 ^ n"

text \<open>\<^verbatim>\<open>str(n)\<close> of an integer, as the f-string of the cache key formats it.\<close>

fun str_nat :: "nat \<Rightarrow> string" where
  "str_nat n =
     (if n < 10 then [char_of (48 + n)]
      else str_nat (n div 10) @ [char_of (48 + n mod 10)])"

definition str_int :: "int \<Rightarrow> string" where
  "str_int i = (if i < 0 then CHR ''-'' # str_nat (nat (- i)) else str_nat (nat i))"

section \<open>The collaborators of the ML service\<close>

text \<open>
  What \<^verbatim>\<open>pd.to_datetime\<close> returns: the three attributes the service reads.
\<close>

record pd_timestamp =
  hour :: int
  dayofweek :: int
  month :: int

text \<open>
  The library functions the service calls are parameters of the model:
  \<^verbatim>\<open>hash\<close> on strings (seeded once per process), \<^verbatim>\<open>str\<close> of a list of
  \<open>(key, value)\<close> tuples, and \<^verbatim>\<open>pd.to_datetime\<close>, which may raise.
\<close>

record runtime =
  py_hash :: "string \<Rightarrow> int"
  py_str :: "(string \<times> pyval) list \<Rightarrow> string"
  pd_to_datetime :: "pyval \<Rightarrow> pd_timestamp raising"

type_synonym feature_row = "pyval list"

text \<open>
  An object loaded by \<^verbatim>\<open>joblib.load\<close>: \<^verbatim>\<open>predict\<close> returns the array of labels,
  \<^verbatim>\<open>predict_proba\<close> (when the object has the attribute) one row of class probabilities
  per sample, \<^verbatim>\<open>transform\<close> the scaled row. A method the object lacks raises
  AttributeError when called.
\<close>

record artifact =
  predict :: "feature_row \<Rightarrow> real list raising"
  predict_proba :: "(feature_row \<Rightarrow> real list list raising) option"
  transform :: "feature_row \<Rightarrow> feature_row raising"

record MLService =
  models :: "string \<rightharpoonup> artifact"

text \<open>
  The draws of the module \<^verbatim>\<open>random\<close> during one call: the value of
  \<^verbatim>\<open>random.random()\<close> and the index \<^verbatim>\<open>random.choice\<close> selects.
\<close>

record draws =
  random_random :: real
  random_index :: nat

definition random_choice :: "draws \<Rightarrow> int list \<Rightarrow> int" where
  "random_choice d xs = xs ! (random_index d mod length xs)"

record prediction_result =
  predicted_stage :: int
  confidence_score :: real
  model_used :: string
  timestamp :: string
  features_used :: "nat option"
  deficit_ratio :: "real option"
  is_peak_hour :: "bool option"
  error :: "pyexn option"

section \<open>cache\_service.py\<close>

text \<open>
  The Redis store maps a key to a value and the time at which it expires
  (\<^verbatim>\<open>setex\<close>). The flag is \<^verbatim>\<open>is_connected\<close>; time is in seconds.
\<close>

record CacheService =
  is_connected :: bool
  redis_client :: "string \<rightharpoonup> (prediction_result \<times> nat)"

definition CACHE_TTL :: nat where
  "CACHE_TTL = 300"

definition cache_get :: "CacheService \<Rightarrow> string \<Rightarrow> nat \<Rightarrow> prediction_result option" where
  "cache_get c key clock =
     (if \<not> is_connected c then None
      else (case redis_client c key of
              None \<Rightarrow> None
            | Some (v, expires) \<Rightarrow> if clock < expires then Some v else None))"

definition cache_set ::
  "CacheService \<Rightarrow> string \<Rightarrow> prediction_result \<Rightarrow> nat option \<Rightarrow> nat \<Rightarrow> bool \<times> CacheService" where
  "cache_set c key v ttl clock =
     (if \<not> is_connected c then (False, c)
      else
        (let ttl' = (case ttl of None \<Rightarrow> CACHE_TTL | Some n \<Rightarrow> if n = 0 then CACHE_TTL else n)
         in (True, c\<lparr>redis_client := (redis_client c)(key \<mapsto> (v, clock + ttl'))\<rparr>)))"

section \<open>ml\_service.py\<close>

definition peak_hours :: "int \<Rightarrow> bool" where
  "peak_hours h = ((6 \<le> h \<and> h \<le> 10) \<or> (17 \<le> h \<and> h \<le> 21))"

definition default_features :: feature_row where
  "default_features =
     [PFloat 25.0, PFloat 60.0, PFloat 10.0, PFloat 30000.0, PFloat 28000.0, PFloat 1.5,
      PInt 12, PInt 1, PInt 6, PInt 0, PInt 1]"

text \<open>
  Lines 59 to 71: the feature list before scaling. \<^verbatim>\<open>np.array(...).reshape(1, -1)\<close>
  turns it into a matrix of one row; the model keeps that row, and numpy's conversion of the
  entries to one dtype is not modelled.
\<close>

definition base_features :: "pydict \<Rightarrow> pd_timestamp \<Rightarrow> feature_row" where
  "base_features data dt =
     [dict_get data ''temperature'' (PFloat 25.0),
      dict_get data ''humidity'' (PFloat 60.0),
      dict_get data ''wind_speed'' (PFloat 10.0),
      dict_get data ''demand_forecast'' (PFloat 30000.0),
      dict_get data ''generation_capacity'' (PFloat 28000.0),
      dict_get data ''historical_avg'' (PFloat 1.5),
      PInt (hour dt),
      PInt (dayofweek dt),
      PInt (month dt),
      PInt (if peak_hours (hour dt) then 1 else 0),
      PInt (if dayofweek dt < 5 then 1 else 0)]"

text \<open>The body of the \<^verbatim>\<open>try\<close> of \<^verbatim>\<open>prepare_features\<close>.\<close>

definition prepare_features_body :: "MLService \<Rightarrow> runtime \<Rightarrow> pydict \<Rightarrow> feature_row raising" where
  "prepare_features_body svc rt data =
     bind_exn (getitem data ''datetime'') (\<lambda>v.
     bind_exn (pd_to_datetime rt v) (\<lambda>dt.
       let features = base_features data dt
       in (case models svc ''scaler'' of
             None \<Rightarrow> Inr features
           | Some scaler \<Rightarrow> transform scaler features)))"

definition prepare_features :: "MLService \<Rightarrow> runtime \<Rightarrow> pydict \<Rightarrow> feature_row raising" where
  "prepare_features svc rt data =
     try_except (prepare_features_body svc rt data) (\<lambda>e. Inr default_features)"

text \<open>
  The rule-based estimator, lines 155 to 182 of the source: the deficit ratio, the peak
  multiplier and the threshold table.
\<close>

definition rule_deficit_ratio :: "real \<Rightarrow> real \<Rightarrow> real" where
  "rule_deficit_ratio demand generation =
     (let deficit = max 0 (demand - generation)
      in if 0 < demand then deficit / demand else 0)"

definition rule_adjusted_ratio :: "real \<Rightarrow> real \<Rightarrow> int \<Rightarrow> real" where
  "rule_adjusted_ratio demand generation h =
     rule_deficit_ratio demand generation * (if peak_hours h then 1.3 else 1.0)"

definition rule_stage :: "real \<Rightarrow> int \<times> real" where
  "rule_stage adjusted_ratio =
     (if adjusted_ratio < 0.02 then (0, 0.85)
      else if adjusted_ratio < 0.05 then (1, 0.75)
      else if adjusted_ratio < 0.08 then (2, 0.70)
      else if adjusted_ratio < 0.12 then (3, 0.65)
      else if adjusted_ratio < 0.16 then (4, 0.60)
      else (min 8 (py_int (adjusted_ratio * 25)), 0.55))"

text \<open>Lines 185 to 187: the 10 percent variation.\<close>

definition perturb :: "draws \<Rightarrow> int \<times> real \<Rightarrow> int \<times> real" where
  "perturb d sc =
     (if random_random d < 0.1
      then (max 0 (min 8 (fst sc + random_choice d [- 1, 1])), snd sc * 0.9)
      else sc)"

text \<open>Lines 184 to 196: the variation is applied and the result dictionary built.\<close>

definition rule_result :: "real \<Rightarrow> real \<Rightarrow> int \<Rightarrow> draws \<Rightarrow> string \<Rightarrow> prediction_result" where
  "rule_result dem gen h d utcnow =
     (let sc = perturb d (rule_stage (rule_adjusted_ratio dem gen h))
      in \<lparr>predicted_stage = fst sc,
          confidence_score = py_round (snd sc) 3,
          model_used = ''rule_based_fallback'',
          timestamp = utcnow,
          features_used = None,
          deficit_ratio = Some (py_round (rule_deficit_ratio dem gen) 4),
          is_peak_hour = Some (peak_hours h),
          error = None\<rparr>)"

text \<open>The body of the \<^verbatim>\<open>try\<close> of \<^verbatim>\<open>_fallback_prediction\<close>.\<close>

definition fallback_body :: "runtime \<Rightarrow> pydict \<Rightarrow> draws \<Rightarrow> string \<Rightarrow> prediction_result raising" where
  "fallback_body rt data d utcnow =
     (let demand = dict_get data ''demand_forecast'' (PInt 30000);
          generation = dict_get data ''generation_capacity'' (PInt 28000)
      in bind_exn (getitem data ''datetime'') (\<lambda>v.
         bind_exn (pd_to_datetime rt v) (\<lambda>dt.
         bind_exn (num_of demand) (\<lambda>dem.
         bind_exn (num_of generation) (\<lambda>gen.
           Inr (rule_result dem gen (hour dt) d utcnow))))))"

definition emergency_result :: "draws \<Rightarrow> string \<Rightarrow> pyexn \<Rightarrow> prediction_result" where
  "emergency_result d utcnow e =
     \<lparr>predicted_stage = random_choice d [0, 1, 2, 2, 3],
      confidence_score = 0.5,
      model_used = ''emergency_fallback'',
      timestamp = utcnow,
      features_used = None,
      deficit_ratio = None,
      is_peak_hour = None,
      error = Some e\<rparr>"

definition fallback_prediction ::
  "runtime \<Rightarrow> pydict \<Rightarrow> draws \<Rightarrow> string \<Rightarrow> prediction_result raising" where
  "fallback_prediction rt data d utcnow =
     try_except (fallback_body rt data d utcnow) (\<lambda>e. Inr (emergency_result d utcnow e))"

text \<open>\<^verbatim>\<open>xs[0]\<close> and \<^verbatim>\<open>np.max(xs)\<close> raise on an empty array.\<close>

definition first_elem :: "'a list \<Rightarrow> 'a raising" where
  "first_elem xs = (case xs of [] \<Rightarrow> Inl IndexError | x # _ \<Rightarrow> Inr x)"

definition np_max :: "real list \<Rightarrow> real raising" where
  "np_max xs = (case xs of [] \<Rightarrow> Inl ValueError | x # ys \<Rightarrow> Inr (fold max ys x))"

text \<open>Lines 119 to 128: the stage is clamped to 0..8 and the result dictionary built.\<close>

definition model_result :: "string \<Rightarrow> string \<Rightarrow> feature_row \<Rightarrow> real \<Rightarrow> real \<Rightarrow> prediction_result" where
  "model_result model_name utcnow features label confidence =
     \<lparr>predicted_stage = max 0 (min 8 (py_int label)),
      confidence_score = py_round confidence 3,
      model_used = model_name,
      timestamp = utcnow,
      features_used = Some (length features),
      deficit_ratio = None,
      is_peak_hour = None,
      error = None\<rparr>"

text \<open>The body of the inner \<^verbatim>\<open>try\<close>, lines 106 to 132: one model attempt.\<close>

definition model_attempt ::
  "CacheService \<Rightarrow> string \<Rightarrow> nat \<Rightarrow> string \<Rightarrow> string \<Rightarrow> artifact \<Rightarrow> feature_row
     \<Rightarrow> (prediction_result \<times> CacheService) raising" where
  "model_attempt cache cache_key clock utcnow model_name model features =
     bind_exn
       (case predict_proba model of
          Some proba \<Rightarrow>
            bind_exn (proba features) (\<lambda>rows.
            bind_exn (first_elem rows) (\<lambda>probabilities.
            bind_exn (predict model features) (\<lambda>labels.
            bind_exn (first_elem labels) (\<lambda>label.
            bind_exn (np_max probabilities) (\<lambda>confidence.
              Inr (label, confidence))))))
        | None \<Rightarrow>
            bind_exn (predict model features) (\<lambda>labels.
            bind_exn (first_elem labels) (\<lambda>label.
              Inr (label, 0.8))))
       (\<lambda>(label, confidence).
          let result = model_result model_name utcnow features label confidence
          in Inr (result, snd (cache_set cache cache_key result (Some 300) clock)))"

text \<open>
  The \<^verbatim>\<open>for\<close> loop over the preference list: \<open>None\<close> when the loop ends without
  a \<^verbatim>\<open>return\<close>.
\<close>

fun try_models ::
  "MLService \<Rightarrow> CacheService \<Rightarrow> string \<Rightarrow> nat \<Rightarrow> string \<Rightarrow> feature_row \<Rightarrow> string list
     \<Rightarrow> (prediction_result \<times> CacheService) option" where
  "try_models svc cache cache_key clock utcnow features [] = None"
| "try_models svc cache cache_key clock utcnow features (model_name # rest) =
     (case models svc model_name of
        None \<Rightarrow> try_models svc cache cache_key clock utcnow features rest
      | Some model \<Rightarrow>
          (case model_attempt cache cache_key clock utcnow model_name model features of
             Inl e \<Rightarrow> try_models svc cache cache_key clock utcnow features rest
           | Inr r \<Rightarrow> Some r))"

definition model_preferences :: "string list" where
  "model_preferences = [''xgboost'', ''random_forest'']"

text \<open>Line 89: \<^verbatim>\<open>f"prediction:{hash(str(sorted(data.items())))}"\<close>.\<close>

definition sorted_items :: "pydict \<Rightarrow> (string \<times> pyval) list" where
  "sorted_items data = sort_key fst data"

definition cache_key_of :: "runtime \<Rightarrow> pydict \<Rightarrow> string" where
  "cache_key_of rt data = ''prediction:'' @ str_int (py_hash rt (py_str rt (sorted_items data)))"

text \<open>
  \<^verbatim>\<open>predict_loadshedding\<close>. Besides the record, a call reads the clock of the Redis
  server (for the expiry of entries), the draws of \<^verbatim>\<open>random\<close> and the string
  \<^verbatim>\<open>datetime.utcnow().isoformat()\<close>; it returns the result together with the cache
  it leaves. A cached result is a non-empty dictionary, so \<^verbatim>\<open>if cached_result\<close> holds
  for every hit.
\<close>

definition predict_loadshedding ::
  "MLService \<Rightarrow> runtime \<Rightarrow> CacheService \<Rightarrow> nat \<Rightarrow> draws \<Rightarrow> string \<Rightarrow> pydict
     \<Rightarrow> (prediction_result \<times> CacheService) raising" where
  "predict_loadshedding svc rt cache clock d utcnow data =
     (let cache_key = cache_key_of rt data
      in case cache_get cache cache_key clock of
           Some cached_result \<Rightarrow> Inr (cached_result, cache)
         | None \<Rightarrow>
             try_except
               (bind_exn (prepare_features svc rt data) (\<lambda>features.
                  case try_models svc cache cache_key clock utcnow features model_preferences of
                    Some r \<Rightarrow> Inr r
                  | None \<Rightarrow>
                      bind_exn (fallback_prediction rt data d utcnow) (\<lambda>r. Inr (r, cache))))
               (\<lambda>e. bind_exn (fallback_prediction rt data d utcnow) (\<lambda>r. Inr (r, cache))))"

text \<open>
  The record \<^verbatim>\<open>create_prediction\<close> of \<^verbatim>\<open>routers/predictions.py\<close> passes to the
  service: the timestamp is stored under \<^verbatim>\<open>date_time\<close>.
\<close>

definition ml_input ::
  "string \<Rightarrow> string \<Rightarrow> pyval \<Rightarrow> pyval \<Rightarrow> pyval \<Rightarrow> pyval \<Rightarrow> pyval \<Rightarrow> pyval \<Rightarrow> pydict" where
  "ml_input location date_time temperature humidity wind_speed demand generation historical =
     [(''location'', PStr location),
      (''date_time'', PStr date_time),
      (''temperature'', temperature),
      (''humidity'', humidity),
      (''wind_speed'', wind_speed),
      (''demand_forecast'', demand),
      (''generation_capacity'', generation),
      (''historical_avg'', historical)]"

section \<open>Fixtures for the worked examples\<close>

text \<open>
  A runtime whose \<^verbatim>\<open>pd.to_datetime\<close> answers every value with the given timestamp,
  and the record of the worked examples of the rule-based estimator.
\<close>

definition stub_runtime :: "pd_timestamp \<Rightarrow> runtime" where
  "stub_runtime ts =
     \<lparr>py_hash = (\<lambda>s. int (length s)),
      py_str = (\<lambda>items. concat (map fst items)),
      pd_to_datetime = (\<lambda>v. Inr ts)\<rparr>"

definition saturday_at :: "int \<Rightarrow> pd_timestamp" where
  "saturday_at h = \<lparr>hour = h, dayofweek = 5, month = 6\<rparr>"

definition example_record :: pydict where
  "example_record =
     [(''datetime'', PStr ''2024-06-15T08:00:00''),
      (''demand_forecast'', PInt 31000),
      (''generation_capacity'', PInt 28000)]"

definition no_variation :: draws where
  "no_variation = \<lparr>random_random = 0.5, random_index = 0\<rparr>"

definition empty_service :: MLService where
  "empty_service = \<lparr>models = Map.empty\<rparr>"

definition disconnected_cache :: CacheService where
  "disconnected_cache = \<lparr>is_connected = False, redis_client = Map.empty\<rparr>"


definition failing_scaler_service :: MLService where
  "failing_scaler_service =
     \<lparr>models = [''scaler'' \<mapsto>
        \<lparr>predict = (\<lambda>f. Inl AttributeError),
         predict_proba = None,
         transform = (\<lambda>f. Inl ValueError)\<rparr>]\<rparr>"

definition in_bounds :: "prediction_result \<Rightarrow> bool" where
  "in_bounds r \<longleftrightarrow>
     0 \<le> predicted_stage r \<and> predicted_stage r \<le> 8
     \<and> 0 \<le> confidence_score r \<and> confidence_score r \<le> 1"

definition cache_in_bounds :: "CacheService \<Rightarrow> bool" where
  "cache_in_bounds c \<longleftrightarrow> (\<forall>k v expires. redis_client c k = Some (v, expires) \<longrightarrow> in_bounds v)"

definition probabilities_valid :: "MLService \<Rightarrow> bool" where
  "probabilities_valid svc \<longleftrightarrow>
     (\<forall>name model proba features row rows.
        models svc name = Some model \<and> predict_proba model = Some proba
        \<and> proba features = Inr (row # rows)
        \<longrightarrow> (\<forall>p \<in> set row. 0 \<le> p \<and> p \<le> 1))"


definition proba_model :: "real \<Rightarrow> real list \<Rightarrow> artifact" where
  "proba_model label row =
     \<lparr>predict = (\<lambda>f. Inr [label]),
      predict_proba = Some (\<lambda>f. Inr [row]),
      transform = (\<lambda>f. Inl AttributeError)\<rparr>"


definition connected_empty_cache :: CacheService where
  "connected_empty_cache = \<lparr>is_connected = True, redis_client = Map.empty\<rparr>"

definition xgboost_service :: "artifact \<Rightarrow> MLService" where
  "xgboost_service model = \<lparr>models = [''xgboost'' \<mapsto> model]\<rparr>"




section \<open>Properties of the rule-based estimator\<close>

lemmas rule_defs =
  perturb_def rule_stage_def rule_adjusted_ratio_def rule_deficit_ratio_def peak_hours_def
  py_round_def round_half_even_def py_int_def

lemma fallback_prediction_rule_based:
  assumes "map_of data ''datetime'' = Some v"
    and "pd_to_datetime rt v = Inr dt"
    and "num_of (dict_get data ''demand_forecast'' (PInt 30000)) = Inr dem"
    and "num_of (dict_get data ''generation_capacity'' (PInt 28000)) = Inr gen"
  shows "fallback_prediction rt data d utcnow =
     Inr (let sc = perturb d (rule_stage (rule_adjusted_ratio dem gen (hour dt)))
          in \<lparr>predicted_stage = fst sc,
              confidence_score = py_round (snd sc) 3,
              model_used = ''rule_based_fallback'',
              timestamp = utcnow,
              features_used = None,
              deficit_ratio = Some (py_round (rule_deficit_ratio dem gen) 4),
              is_peak_hour = Some (peak_hours (hour dt)),
              error = None\<rparr>)"
  using assms
  by (simp add: fallback_prediction_def try_except_def fallback_body_def rule_result_def bind_exn_def
      getitem_def Let_def)

lemma example_record_lookups:
  "map_of example_record ''datetime'' = Some (PStr ''2024-06-15T08:00:00'')"
  "dict_get example_record ''demand_forecast'' d1 = PInt 31000"
  "dict_get example_record ''generation_capacity'' d2 = PInt 28000"
  by (simp_all add: example_record_def dict_get_def)

lemma no_variation_draw: "\<not> random_random no_variation < 0.1"
  by (simp add: no_variation_def)

text \<open>
  C2, as the specification states it: demand 31000, generation 28000, hour 8, no variation
  drawn, gives stage 3 with confidence 0.65. The adjusted ratio 0.1258 is not below the
  threshold 0.12, so the estimator answers stage 4 with confidence 0.60.
\<close>

theorem rule_based_peak_example_refuted:
  "fallback_prediction (stub_runtime (saturday_at 8)) example_record no_variation ''t'' =
     Inr \<lparr>predicted_stage = 4,
          confidence_score = 0.6,
          model_used = ''rule_based_fallback'',
          timestamp = ''t'',
          features_used = None,
          deficit_ratio = Some 0.0968,
          is_peak_hour = Some True,
          error = None\<rparr>
   \<and> predicted_stage (projr (fallback_prediction (stub_runtime (saturday_at 8))
         example_record no_variation ''t'')) \<noteq> 3"
proof -
  have "pd_to_datetime (stub_runtime (saturday_at 8)) (PStr ''2024-06-15T08:00:00'')
          = Inr (saturday_at 8)"
    by (simp add: stub_runtime_def)
  from fallback_prediction_rule_based [OF example_record_lookups(1) this,
      of 31000 28000 no_variation "''t''"]
  show ?thesis
    using no_variation_draw
    by (simp add: example_record_lookups rule_defs saturday_at_def)
qed

text \<open>
  C2, amended: for demand 31000, generation 28000 and hour 8, when no variation is drawn,
  the rule-based estimator reports the deficit ratio 0.0968 (rounded to 4 decimals), its
  adjusted ratio rounds to 0.1258, and it returns stage 4 with confidence 0.60.
\<close>

theorem rule_based_peak_example:
  assumes "map_of data ''datetime'' = Some v"
    and "pd_to_datetime rt v = Inr dt"
    and "hour dt = 8"
    and "num_of (dict_get data ''demand_forecast'' (PInt 30000)) = Inr 31000"
    and "num_of (dict_get data ''generation_capacity'' (PInt 28000)) = Inr 28000"
    and "\<not> random_random d < 0.1"
  shows "\<exists>r. fallback_prediction rt data d utcnow = Inr r
           \<and> deficit_ratio r = Some 0.0968
           \<and> py_round (rule_adjusted_ratio 31000 28000 (hour dt)) 4 = 0.1258
           \<and> predicted_stage r = 4
           \<and> confidence_score r = 0.60
           \<and> model_used r = ''rule_based_fallback''"
  using fallback_prediction_rule_based [OF assms(1,2,4,5), of d utcnow] assms(3,6)
  by (simp add: rule_defs)

theorem rule_based_peak_example_witness:
  "\<exists>r. fallback_prediction (stub_runtime (saturday_at 8)) example_record no_variation ''t'' = Inr r
           \<and> deficit_ratio r = Some 0.0968
           \<and> predicted_stage r = 4
           \<and> confidence_score r = 0.60
           \<and> model_used r = ''rule_based_fallback''"
proof -
  have dt: "pd_to_datetime (stub_runtime (saturday_at 8)) (PStr ''2024-06-15T08:00:00'')
          = Inr (saturday_at 8)"
    by (simp add: stub_runtime_def)
  have h: "hour (saturday_at 8) = 8"
    by (simp add: saturday_at_def)
  have dem: "num_of (dict_get example_record ''demand_forecast'' (PInt 30000)) = Inr 31000"
    and gen: "num_of (dict_get example_record ''generation_capacity'' (PInt 28000)) = Inr 28000"
    by (simp_all add: example_record_lookups)
  from rule_based_peak_example [OF example_record_lookups(1) dt h dem gen no_variation_draw,
      of "''t''"]
  show ?thesis by blast
qed

text \<open>
  C3, as the specification states it: demand 31000, generation 28000, hour 2, no variation
  drawn, gives stage 2 with confidence 0.70. Off peak the adjusted ratio is 0.0968, which is
  not below the threshold 0.08, so the estimator answers stage 3 with confidence 0.65.
\<close>

theorem rule_based_off_peak_example_refuted:
  "fallback_prediction (stub_runtime (saturday_at 2)) example_record no_variation ''t'' =
     Inr \<lparr>predicted_stage = 3,
          confidence_score = 0.65,
          model_used = ''rule_based_fallback'',
          timestamp = ''t'',
          features_used = None,
          deficit_ratio = Some 0.0968,
          is_peak_hour = Some False,
          error = None\<rparr>
   \<and> predicted_stage (projr (fallback_prediction (stub_runtime (saturday_at 2))
         example_record no_variation ''t'')) \<noteq> 2"
proof -
  have "pd_to_datetime (stub_runtime (saturday_at 2)) (PStr ''2024-06-15T08:00:00'')
          = Inr (saturday_at 2)"
    by (simp add: stub_runtime_def)
  from fallback_prediction_rule_based [OF example_record_lookups(1) this,
      of 31000 28000 no_variation "''t''"]
  show ?thesis
    using no_variation_draw
    by (simp add: example_record_lookups rule_defs saturday_at_def)
qed

text \<open>
  C3, amended: for demand 31000, generation 28000 and hour 2, when no variation is drawn,
  the adjusted ratio of the rule-based estimator rounds to 0.0968 and it returns stage 3
  with confidence 0.65.
\<close>

theorem rule_based_off_peak_example:
  assumes "map_of data ''datetime'' = Some v"
    and "pd_to_datetime rt v = Inr dt"
    and "hour dt = 2"
    and "num_of (dict_get data ''demand_forecast'' (PInt 30000)) = Inr 31000"
    and "num_of (dict_get data ''generation_capacity'' (PInt 28000)) = Inr 28000"
    and "\<not> random_random d < 0.1"
  shows "\<exists>r. fallback_prediction rt data d utcnow = Inr r
           \<and> py_round (rule_adjusted_ratio 31000 28000 (hour dt)) 4 = 0.0968
           \<and> predicted_stage r = 3
           \<and> confidence_score r = 0.65
           \<and> model_used r = ''rule_based_fallback''"
  using fallback_prediction_rule_based [OF assms(1,2,4,5), of d utcnow] assms(3,6)
  by (simp add: rule_defs)

theorem rule_based_off_peak_example_witness:
  "\<exists>r. fallback_prediction (stub_runtime (saturday_at 2)) example_record no_variation ''t'' = Inr r
           \<and> predicted_stage r = 3
           \<and> confidence_score r = 0.65
           \<and> model_used r = ''rule_based_fallback''"
proof -
  have dt: "pd_to_datetime (stub_runtime (saturday_at 2)) (PStr ''2024-06-15T08:00:00'')
          = Inr (saturday_at 2)"
    by (simp add: stub_runtime_def)
  have h: "hour (saturday_at 2) = 2"
    by (simp add: saturday_at_def)
  have dem: "num_of (dict_get example_record ''demand_forecast'' (PInt 30000)) = Inr 31000"
    and gen: "num_of (dict_get example_record ''generation_capacity'' (PInt 28000)) = Inr 28000"
    by (simp_all add: example_record_lookups)
  from rule_based_off_peak_example [OF example_record_lookups(1) dt h dem gen no_variation_draw,
      of "''t''"]
  show ?thesis by blast
qed

section \<open>The cascade never raises\<close>

lemma bind_exn_Inr_iff:
  "bind_exn m f = Inr y \<longleftrightarrow> (\<exists>x. m = Inr x \<and> f x = Inr y)"
  by (cases m) (simp_all add: bind_exn_def)

lemma bind_exn_simps:
  "bind_exn (Inl e) f = Inl e"
  "bind_exn (Inr x) f = f x"
  by (simp_all add: bind_exn_def)

lemma try_except_simps:
  "try_except (Inl e) h = h e"
  "try_except (Inr x) h = Inr x"
  by (simp_all add: try_except_def)

lemma prepare_features_cases:
  "prepare_features svc rt data =
     (case prepare_features_body svc rt data of
        Inl e \<Rightarrow> Inr default_features
      | Inr f \<Rightarrow> Inr f)"
  by (simp add: prepare_features_def try_except_def)

lemma prepare_features_returns: "\<exists>f. prepare_features svc rt data = Inr f"
  by (simp add: prepare_features_cases split: sum.split)

lemma fallback_body_model_used:
  "fallback_body rt data d utcnow = Inr r \<Longrightarrow> model_used r = ''rule_based_fallback''"
  by (auto simp: fallback_body_def rule_result_def Let_def bind_exn_Inr_iff)

lemma fallback_prediction_cases:
  "fallback_prediction rt data d utcnow =
     (case fallback_body rt data d utcnow of
        Inl e \<Rightarrow> Inr (emergency_result d utcnow e)
      | Inr r \<Rightarrow> Inr r)"
  by (simp add: fallback_prediction_def try_except_def)

lemma fallback_prediction_returns:
  "\<exists>r. fallback_prediction rt data d utcnow = Inr r
       \<and> (model_used r = ''rule_based_fallback'' \<or> model_used r = ''emergency_fallback'')"
proof (cases "fallback_body rt data d utcnow")
  case (Inl e)
  then show ?thesis
    by (simp add: fallback_prediction_cases emergency_result_def)
next
  case (Inr r)
  then show ?thesis
    by (simp add: fallback_prediction_cases fallback_body_model_used)
qed



lemma try_models_unregistered:
  "\<forall>name \<in> set names. models svc name = None
     \<Longrightarrow> try_models svc cache key clock utcnow features names = None"
  by (induction names) simp_all

lemma predict_loadshedding_hit:
  "cache_get cache (cache_key_of rt data) clock = Some r
     \<Longrightarrow> predict_loadshedding svc rt cache clock d utcnow data = Inr (r, cache)"
  by (simp add: predict_loadshedding_def)

lemma predict_loadshedding_miss:
  assumes "cache_get cache (cache_key_of rt data) clock = None"
    and "prepare_features svc rt data = Inr features"
  shows "predict_loadshedding svc rt cache clock d utcnow data =
     (case try_models svc cache (cache_key_of rt data) clock utcnow features model_preferences of
        Some r \<Rightarrow> Inr r
      | None \<Rightarrow> Inr (projr (fallback_prediction rt data d utcnow), cache))"
proof -
  obtain r where "fallback_prediction rt data d utcnow = Inr r"
    using fallback_prediction_returns by blast
  then show ?thesis
    using assms
    by (simp add: predict_loadshedding_def bind_exn_simps try_except_simps split: option.split)
qed



text \<open>
  C7: with neither \<^verbatim>\<open>xgboost\<close> nor \<^verbatim>\<open>random_forest\<close> in the registry and a cache
  miss, the result is tagged \<^verbatim>\<open>rule_based_fallback\<close> or \<^verbatim>\<open>emergency_fallback\<close>, never
  with a model name, and the cache is left as it was.
\<close>

theorem no_models_fallback_only:
  assumes "models svc ''xgboost'' = None"
    and "models svc ''random_forest'' = None"
    and "cache_get cache (cache_key_of rt data) clock = None"
  shows "\<exists>r. predict_loadshedding svc rt cache clock d utcnow data = Inr (r, cache)
           \<and> (model_used r = ''rule_based_fallback'' \<or> model_used r = ''emergency_fallback'')
           \<and> model_used r \<notin> set model_preferences"
proof -
  obtain f where f: "prepare_features svc rt data = Inr f"
    using prepare_features_returns by blast
  obtain fr where fr: "fallback_prediction rt data d utcnow = Inr fr"
    and tag: "model_used fr = ''rule_based_fallback'' \<or> model_used fr = ''emergency_fallback''"
    using fallback_prediction_returns by blast
  have "try_models svc cache (cache_key_of rt data) clock utcnow f model_preferences = None"
    using assms(1,2) by (simp add: try_models_unregistered model_preferences_def)
  with assms(3) f fr have "predict_loadshedding svc rt cache clock d utcnow data = Inr (fr, cache)"
    by (simp add: predict_loadshedding_miss)
  moreover from tag have "model_used fr \<notin> set model_preferences"
    by (auto simp: model_preferences_def)
  ultimately show ?thesis using tag by blast
qed

theorem no_models_fallback_only_witness:
  "models empty_service ''xgboost'' = None
   \<and> models empty_service ''random_forest'' = None
   \<and> cache_get disconnected_cache (cache_key_of (stub_runtime (saturday_at 8)) example_record) 7 = None
   \<and> (\<exists>r. predict_loadshedding empty_service (stub_runtime (saturday_at 8)) disconnected_cache 7
              no_variation ''t'' example_record = Inr (r, disconnected_cache)
           \<and> (model_used r = ''rule_based_fallback'' \<or> model_used r = ''emergency_fallback'')
           \<and> model_used r \<notin> set model_preferences)"
proof -
  have a: "models empty_service ''xgboost'' = None"
    and b: "models empty_service ''random_forest'' = None"
    by (simp_all add: empty_service_def)
  have c: "cache_get disconnected_cache
      (cache_key_of (stub_runtime (saturday_at 8)) example_record) 7 = None"
    by (simp add: cache_get_def disconnected_cache_def)
  from no_models_fallback_only [OF a b c, of no_variation "''t''"] a b c
  show ?thesis by blast
qed

section \<open>Feature preparation\<close>

lemma prepare_features_body_raises:
  "prepare_features_body svc rt data = Inl e
     \<Longrightarrow> prepare_features svc rt data = Inr default_features"
  by (simp add: prepare_features_cases)

text \<open>
  C8: when the lookup of \<^verbatim>\<open>datetime\<close> fails, when \<^verbatim>\<open>pd.to_datetime\<close> raises, or when
  the registered scaler raises on the feature row, \<^verbatim>\<open>prepare_features\<close> returns the
  hard-coded default row of eleven entries
  25.0, 60.0, 10.0, 30000.0, 28000.0, 1.5, 12, 1, 6, 0, 1 and does not raise.
\<close>

theorem prepare_features_failure_default:
  assumes "(\<exists>e. getitem data ''datetime'' = Inl e)
         \<or> (\<exists>v e. getitem data ''datetime'' = Inr v \<and> pd_to_datetime rt v = Inl e)
         \<or> (\<exists>v dt scaler e. getitem data ''datetime'' = Inr v \<and> pd_to_datetime rt v = Inr dt
               \<and> models svc ''scaler'' = Some scaler
               \<and> transform scaler (base_features data dt) = Inl e)"
  shows "prepare_features svc rt data =
           Inr [PFloat 25.0, PFloat 60.0, PFloat 10.0, PFloat 30000.0, PFloat 28000.0,
                PFloat 1.5, PInt 12, PInt 1, PInt 6, PInt 0, PInt 1]
         \<and> length (projr (prepare_features svc rt data)) = 11"
proof -
  from assms have "\<exists>e. prepare_features_body svc rt data = Inl e"
    by (auto simp: prepare_features_body_def bind_exn_simps)
  then have "prepare_features svc rt data = Inr default_features"
    using prepare_features_body_raises by blast
  then show ?thesis
    by (simp add: default_features_def)
qed

theorem prepare_features_failure_default_witness:
  "prepare_features failing_scaler_service (stub_runtime (saturday_at 8)) example_record =
           Inr [PFloat 25.0, PFloat 60.0, PFloat 10.0, PFloat 30000.0, PFloat 28000.0,
                PFloat 1.5, PInt 12, PInt 1, PInt 6, PInt 0, PInt 1]
   \<and> length (projr (prepare_features failing_scaler_service (stub_runtime (saturday_at 8))
        example_record)) = 11"
proof -
  have "getitem example_record ''datetime'' = Inr (PStr ''2024-06-15T08:00:00'')
      \<and> pd_to_datetime (stub_runtime (saturday_at 8)) (PStr ''2024-06-15T08:00:00'')
          = Inr (saturday_at 8)
      \<and> models failing_scaler_service ''scaler'' = Some
           \<lparr>predict = (\<lambda>f. Inl AttributeError), predict_proba = None,
            transform = (\<lambda>f. Inl ValueError)\<rparr>
      \<and> transform \<lparr>predict = (\<lambda>f. Inl AttributeError), predict_proba = None,
            transform = (\<lambda>f. Inl ValueError)\<rparr>
           (base_features example_record (saturday_at 8)) = Inl ValueError"
    by (simp add: getitem_def example_record_lookups stub_runtime_def failing_scaler_service_def)
  then have "(\<exists>e. getitem example_record ''datetime'' = Inl e)
         \<or> (\<exists>v e. getitem example_record ''datetime'' = Inr v
               \<and> pd_to_datetime (stub_runtime (saturday_at 8)) v = Inl e)
         \<or> (\<exists>v dt scaler e. getitem example_record ''datetime'' = Inr v
               \<and> pd_to_datetime (stub_runtime (saturday_at 8)) v = Inr dt
               \<and> models failing_scaler_service ''scaler'' = Some scaler
               \<and> transform scaler (base_features example_record dt) = Inl e)"
    by blast
  from prepare_features_failure_default [OF this] show ?thesis .
qed

text \<open>
  C10: a record without the key \<^verbatim>\<open>datetime\<close>, such as the one \<^verbatim>\<open>create_prediction\<close>
  builds with the timestamp under \<^verbatim>\<open>date_time\<close>, gets the default feature row from
  \<^verbatim>\<open>prepare_features\<close>, and \<^verbatim>\<open>_fallback_prediction\<close> answers with the emergency
  result, annotated with the KeyError of the lookup, not with a rule-based result.
\<close>

theorem missing_datetime_key:
  assumes "map_of data ''datetime'' = None
         \<or> data = ml_input location date_time temperature humidity wind_speed demand
                    generation historical"
  shows "prepare_features svc rt data = Inr default_features
         \<and> fallback_body rt data d utcnow = Inl (KeyError ''datetime'')
         \<and> fallback_prediction rt data d utcnow =
             Inr \<lparr>predicted_stage = random_choice d [0, 1, 2, 2, 3],
                  confidence_score = 0.5,
                  model_used = ''emergency_fallback'',
                  timestamp = utcnow,
                  features_used = None,
                  deficit_ratio = None,
                  is_peak_hour = None,
                  error = Some (KeyError ''datetime'')\<rparr>"
proof -
  from assms have none: "map_of data ''datetime'' = None"
    by (auto simp: ml_input_def)
  then have key: "getitem data ''datetime'' = Inl (KeyError ''datetime'')"
    by (simp add: getitem_def)
  then have "prepare_features_body svc rt data = Inl (KeyError ''datetime'')"
    by (simp add: prepare_features_body_def bind_exn_simps)
  then have a: "prepare_features svc rt data = Inr default_features"
    by (rule prepare_features_body_raises)
  from key have b: "fallback_body rt data d utcnow = Inl (KeyError ''datetime'')"
    by (simp add: fallback_body_def bind_exn_simps Let_def)
  then have "fallback_prediction rt data d utcnow =
      Inr (emergency_result d utcnow (KeyError ''datetime''))"
    by (simp add: fallback_prediction_cases)
  with a b show ?thesis
    by (simp add: emergency_result_def)
qed

theorem missing_datetime_key_witness:
  "prepare_features empty_service (stub_runtime (saturday_at 8))
      (ml_input ''Johannesburg'' ''2024-06-15T08:00:00'' (PFloat 25.0) (PFloat 60.0)
         (PFloat 10.0) (PInt 31000) (PInt 28000) (PFloat 1.5)) = Inr default_features
   \<and> fallback_prediction (stub_runtime (saturday_at 8))
      (ml_input ''Johannesburg'' ''2024-06-15T08:00:00'' (PFloat 25.0) (PFloat 60.0)
         (PFloat 10.0) (PInt 31000) (PInt 28000) (PFloat 1.5)) no_variation ''t'' =
             Inr \<lparr>predicted_stage = 0,
                  confidence_score = 0.5,
                  model_used = ''emergency_fallback'',
                  timestamp = ''t'',
                  features_used = None,
                  deficit_ratio = None,
                  is_peak_hour = None,
                  error = Some (KeyError ''datetime'')\<rparr>"
  using missing_datetime_key [of
      "ml_input ''Johannesburg'' ''2024-06-15T08:00:00'' (PFloat 25.0) (PFloat 60.0)
         (PFloat 10.0) (PInt 31000) (PInt 28000) (PFloat 1.5)"
      "''Johannesburg''" "''2024-06-15T08:00:00''" "PFloat 25.0" "PFloat 60.0" "PFloat 10.0"
      "PInt 31000" "PInt 28000" "PFloat 1.5" empty_service "stub_runtime (saturday_at 8)"
      no_variation "''t''"]
  by (simp add: random_choice_def no_variation_def)

section \<open>The cache key\<close>

lemma filter_same_key:
  "distinct (map fst l) \<Longrightarrow> k \<in> set l \<Longrightarrow> filter (\<lambda>x. fst k = fst x) l = [k]"
proof (induction l)
  case Nil
  then show ?case by simp
next
  case (Cons a l)
  show ?case
  proof (cases "k = a")
    case True
    have "filter (\<lambda>x. fst a = fst x) l = []"
      using Cons.prems(1) by (auto simp: filter_empty_conv image_iff)
    with True show ?thesis by simp
  next
    case False
    with Cons.prems have "k \<in> set l" and "fst k \<noteq> fst a"
      by (auto simp: image_iff)
    with Cons show ?thesis by simp
  qed
qed

lemma sorted_items_unique:
  assumes "distinct (map fst xs)" and "distinct (map fst ys)" and "map_of xs = map_of ys"
  shows "sorted_items xs = sorted_items ys"
proof -
  have set_eq: "set xs = set ys"
    using assms by (simp add: map_of_inject_set)
  have dx: "distinct xs" and dy: "distinct ys"
    using assms(1,2) by (simp_all add: distinct_map)
  have "sort_key fst xs = sort_key fst ys"
  proof (rule properties_for_sort_key)
    show "mset (sort_key fst ys) = mset xs"
      using set_eq dx dy by (simp add: set_eq_iff_mset_eq_distinct)
    show "sorted (map fst (sort_key fst ys))"
      by simp
    show "filter (\<lambda>x. fst k = fst x) (sort_key fst ys) = filter (\<lambda>x. fst k = fst x) xs"
      if "k \<in> set (sort_key fst ys)" for k
    proof -
      from that have ky: "k \<in> set ys" by simp
      then have kx: "k \<in> set xs" using set_eq by simp
      have "filter (\<lambda>x. fst k = fst x) (sort_key fst ys)
              = sort_key fst (filter (\<lambda>x. fst k = fst x) ys)"
        by (simp add: filter_sort)
      also have "\<dots> = [k]"
        using filter_same_key [OF assms(2) ky] by simp
      also have "\<dots> = filter (\<lambda>x. fst k = fst x) xs"
        using filter_same_key [OF assms(1) kx] by simp
      finally show ?thesis .
    qed
  qed
  then show ?thesis
    by (simp add: sorted_items_def)
qed

text \<open>
  C9: the cache key is a function of the record's items sorted by key. Two records with
  pairwise distinct keys that are equal as maps from fields to values get the same sorted
  item list, whatever the insertion order, and so the same cache key.
\<close>

theorem cache_key_order_insensitive:
  assumes "distinct (map fst data1)" and "distinct (map fst data2)"
    and "map_of data1 = map_of data2"
  shows "sorted_items data1 = sorted_items data2
         \<and> cache_key_of rt data1 = cache_key_of rt data2
         \<and> cache_get cache (cache_key_of rt data1) clock
             = cache_get cache (cache_key_of rt data2) clock"
  using sorted_items_unique [OF assms]
  by (simp add: cache_key_of_def)

theorem cache_key_order_insensitive_witness:
  "cache_key_of (stub_runtime (saturday_at 8))
      [(''generation_capacity'', PInt 28000), (''demand_forecast'', PInt 31000)]
   = cache_key_of (stub_runtime (saturday_at 8))
      [(''demand_forecast'', PInt 31000), (''generation_capacity'', PInt 28000)]"
proof -
  have "map_of [(''generation_capacity'', PInt 28000), (''demand_forecast'', PInt 31000)]
      = map_of [(''demand_forecast'', PInt 31000), (''generation_capacity'', PInt 28000)]"
    by (auto simp: fun_eq_iff)
  from cache_key_order_insensitive [OF _ _ this, of "stub_runtime (saturday_at 8)"]
  show ?thesis by simp
qed

section \<open>Bounds of the result\<close>

lemma round_half_even_between:
  assumes "of_int a \<le> x" and "x \<le> of_int b"
  shows "a \<le> round_half_even x \<and> round_half_even x \<le> b"
proof -
  have lo: "a \<le> \<lfloor>x\<rfloor>"
    using assms(1) by (simp add: le_floor_iff)
  have hi: "\<lfloor>x\<rfloor> \<le> b"
    using assms(2) by (simp add: floor_le_iff)
  show ?thesis
  proof (cases "x = of_int b")
    case True
    then show ?thesis
      using assms(1) by (simp add: round_half_even_def)
  next
    case False
    with assms(2) have "x < of_int b" by simp
    then have "\<lfloor>x\<rfloor> < b" by (simp add: floor_less_iff)
    with lo show ?thesis
      by (auto simp: round_half_even_def Let_def)
  qed
qed

lemma py_round_unit_interval:
  assumes "0 \<le> x" and "x \<le> 1"
  shows "0 \<le> py_round x 3 \<and> py_round x 3 \<le> 1"
proof -
  have "of_int 0 \<le> x * 10 ^ 3" and "x * 10 ^ 3 \<le> of_int 1000"
    using assms by simp_all
  from round_half_even_between [OF this]
  have "0 \<le> round_half_even (x * 10 ^ 3)" and "round_half_even (x * 10 ^ 3) \<le> 1000"
    by simp_all
  then show ?thesis
    by (simp add: py_round_def)
qed

lemma rule_stage_bounds:
  assumes "0 \<le> a"
  shows "0 \<le> fst (rule_stage a) \<and> fst (rule_stage a) \<le> 8
         \<and> 0 \<le> snd (rule_stage a) \<and> snd (rule_stage a) \<le> 1"
proof -
  have "0 \<le> py_int (a * 25)"
    using assms by (simp add: py_int_def)
  then show ?thesis
    by (simp add: rule_stage_def)
qed

lemma perturb_bounds:
  assumes "0 \<le> fst sc \<and> fst sc \<le> 8 \<and> 0 \<le> snd sc \<and> snd sc \<le> 1"
  shows "0 \<le> fst (perturb d sc) \<and> fst (perturb d sc) \<le> 8
         \<and> 0 \<le> snd (perturb d sc) \<and> snd (perturb d sc) \<le> 1"
  using assms by (auto simp: perturb_def)

lemma rule_adjusted_ratio_nonneg: "0 \<le> rule_adjusted_ratio dem gen h"
  by (simp add: rule_adjusted_ratio_def rule_deficit_ratio_def Let_def)

lemma fallback_body_in_bounds:
  assumes "fallback_body rt data d utcnow = Inr r"
  shows "in_bounds r"
proof -
  from assms obtain dem gen h where
    r: "predicted_stage r = fst (perturb d (rule_stage (rule_adjusted_ratio dem gen h)))"
       "confidence_score r = py_round (snd (perturb d (rule_stage (rule_adjusted_ratio dem gen h)))) 3"
    by (auto simp: fallback_body_def rule_result_def Let_def bind_exn_Inr_iff)
  have b: "0 \<le> fst (perturb d (rule_stage (rule_adjusted_ratio dem gen h)))
      \<and> fst (perturb d (rule_stage (rule_adjusted_ratio dem gen h))) \<le> 8
      \<and> 0 \<le> snd (perturb d (rule_stage (rule_adjusted_ratio dem gen h)))
      \<and> snd (perturb d (rule_stage (rule_adjusted_ratio dem gen h))) \<le> 1"
    by (rule perturb_bounds, rule rule_stage_bounds, rule rule_adjusted_ratio_nonneg)
  then have "0 \<le> py_round (snd (perturb d (rule_stage (rule_adjusted_ratio dem gen h)))) 3
      \<and> py_round (snd (perturb d (rule_stage (rule_adjusted_ratio dem gen h)))) 3 \<le> 1"
    using py_round_unit_interval by blast
  with b r show ?thesis
    by (simp add: in_bounds_def)
qed

lemma random_choice_member: "xs \<noteq> [] \<Longrightarrow> random_choice d xs \<in> set xs"
  by (simp add: random_choice_def)

lemma emergency_result_in_bounds: "in_bounds (emergency_result d utcnow e)"
proof -
  have "random_choice d [0, 1, 2, 2, 3] \<in> set [0, 1, 2, 2, 3]"
    by (rule random_choice_member) simp
  then have "0 \<le> random_choice d [0, 1, 2, 2, 3] \<and> random_choice d [0, 1, 2, 2, 3] \<le> 8"
    by auto
  then show ?thesis
    by (simp add: in_bounds_def emergency_result_def)
qed

lemma fallback_prediction_in_bounds:
  "fallback_prediction rt data d utcnow = Inr r \<Longrightarrow> in_bounds r"
  by (auto simp: fallback_prediction_cases split: sum.splits
      intro: fallback_body_in_bounds emergency_result_in_bounds)

lemma np_max_Max: "np_max (x # xs) = Inr (Max (set (x # xs)))"
  using Max.set_eq_fold [of x xs] by (simp add: np_max_def)

lemma np_max_Inr: "np_max row = Inr m \<Longrightarrow> row \<noteq> [] \<and> m = Max (set row)"
  by (cases row) (simp_all add: np_max_Max, simp add: np_max_def)

lemma first_elem_Inr: "first_elem xs = Inr x \<longleftrightarrow> (\<exists>ys. xs = x # ys)"
  by (cases xs) (auto simp: first_elem_def)

section \<open>A model attempt\<close>


lemma model_attempt_Inr:
  assumes "model_attempt cache key clock utcnow name model features = Inr (r, c)"
  shows "\<exists>label labels confidence.
           predict model features = Inr (label # labels)
           \<and> (predict_proba model = None \<and> confidence = 0.8
               \<or> (\<exists>proba row rows. predict_proba model = Some proba
                     \<and> proba features = Inr (row # rows) \<and> row \<noteq> []
                     \<and> confidence = Max (set row)))
           \<and> r = model_result name utcnow features label confidence
           \<and> c = snd (cache_set cache key r (Some 300) clock)"
proof (cases "predict_proba model")
  case None
  with assms show ?thesis
    by (auto simp: model_attempt_def bind_exn_Inr_iff first_elem_Inr model_result_def Let_def)
next
  case (Some proba)
  with assms obtain rows row labels label confidence where
    "proba features = Inr rows" "first_elem rows = Inr row"
    "predict model features = Inr labels" "first_elem labels = Inr label"
    "np_max row = Inr confidence"
    "r = model_result name utcnow features label confidence"
    "c = snd (cache_set cache key r (Some 300) clock)"
    by (auto simp: model_attempt_def bind_exn_Inr_iff model_result_def Let_def)
  with Some show ?thesis
    by (auto simp: first_elem_Inr dest: np_max_Inr)
qed

lemma model_result_in_bounds:
  assumes "0 \<le> confidence" and "confidence \<le> 1"
  shows "in_bounds (model_result name utcnow features label confidence)"
  using py_round_unit_interval [OF assms]
  by (simp add: in_bounds_def model_result_def)

lemma model_attempt_in_bounds:
  assumes "model_attempt cache key clock utcnow name model features = Inr (r, c)"
    and "models svc name = Some model"
    and "probabilities_valid svc"
  shows "in_bounds r"
proof -
  from model_attempt_Inr [OF assms(1)] obtain label labels confidence where
    conf: "predict_proba model = None \<and> confidence = 0.8
               \<or> (\<exists>proba row rows. predict_proba model = Some proba
                     \<and> proba features = Inr (row # rows) \<and> row \<noteq> []
                     \<and> confidence = Max (set row))"
    and r: "r = model_result name utcnow features label confidence"
    by blast
  from conf have "0 \<le> confidence \<and> confidence \<le> 1"
  proof (elim disjE conjE exE)
    assume "confidence = 0.8"
    then show ?thesis by simp
  next
    fix proba row rows
    assume p: "predict_proba model = Some proba" "proba features = Inr (row # rows)"
      and ne: "row \<noteq> []" and c: "confidence = Max (set row)"
    from assms(2,3) p have "\<forall>p \<in> set row. 0 \<le> p \<and> p \<le> 1"
      unfolding probabilities_valid_def by blast
    moreover from ne have "Max (set row) \<in> set row"
      by (simp add: Max_in)
    ultimately show ?thesis using c by blast
  qed
  with r show ?thesis
    by (simp add: model_result_in_bounds)
qed

lemma try_models_in_bounds:
  assumes "try_models svc cache key clock utcnow features names = Some (r, c)"
    and "probabilities_valid svc"
  shows "in_bounds r"
  using assms(1)
proof (induction names)
  case Nil
  then show ?case by simp
next
  case (Cons name rest)
  then show ?case
    using assms(2)
    by (auto split: option.splits sum.splits dest: model_attempt_in_bounds)
qed

lemma cache_set_in_bounds:
  "cache_in_bounds cache \<Longrightarrow> in_bounds r
     \<Longrightarrow> cache_in_bounds (snd (cache_set cache key r ttl clock))"
  by (auto simp: cache_in_bounds_def cache_set_def Let_def)

lemma try_models_cache:
  "try_models svc cache key clock utcnow features names = Some (r, c)
     \<Longrightarrow> c = snd (cache_set cache key r (Some 300) clock)"
proof (induction names)
  case Nil
  then show ?case by simp
next
  case (Cons name rest)
  then show ?case
    by (auto split: option.splits sum.splits dest: model_attempt_Inr)
qed

lemma cache_get_in_bounds:
  "cache_in_bounds cache \<Longrightarrow> cache_get cache key clock = Some r \<Longrightarrow> in_bounds r"
  by (fastforce simp: cache_in_bounds_def cache_get_def split: if_splits option.splits)

text \<open>
  C5: the result of \<^verbatim>\<open>predict_loadshedding\<close> has a stage in [0,8] and a confidence in
  [0,1] on every path: a model success when the class probabilities of the registered
  models lie in [0,1], the rule-based estimator with or without the variation, and the
  emergency default for any record, malformed or not. A cache hit returns a stored
  result, which is within the bounds when the stored results are; the cache keeps that
  property.
\<close>

theorem predict_loadshedding_in_bounds:
  assumes "probabilities_valid svc"
    and "cache_get cache (cache_key_of rt data) clock = None \<or> cache_in_bounds cache"
  shows "\<exists>r c. predict_loadshedding svc rt cache clock d utcnow data = Inr (r, c)
           \<and> 0 \<le> predicted_stage r \<and> predicted_stage r \<le> 8
           \<and> 0 \<le> confidence_score r \<and> confidence_score r \<le> 1
           \<and> (cache_in_bounds cache \<longrightarrow> cache_in_bounds c)"
proof (cases "cache_get cache (cache_key_of rt data) clock")
  case (Some r)
  with assms(2) have "in_bounds r"
    by (auto dest: cache_get_in_bounds)
  with Some show ?thesis
    by (auto simp: predict_loadshedding_hit in_bounds_def)
next
  case None
  obtain f where f: "prepare_features svc rt data = Inr f"
    using prepare_features_returns by blast
  obtain fr where fr: "fallback_prediction rt data d utcnow = Inr fr"
    using fallback_prediction_returns by blast
  show ?thesis
  proof (cases "try_models svc cache (cache_key_of rt data) clock utcnow f model_preferences")
    case miss: None
    from fr have "in_bounds fr" by (rule fallback_prediction_in_bounds)
    with None f fr miss show ?thesis
      by (simp add: predict_loadshedding_miss in_bounds_def)
  next
    case (Some rc)
    obtain r c where rc: "rc = (r, c)" by (cases rc)
    from Some rc assms(1) have b: "in_bounds r"
      by (auto dest: try_models_in_bounds)
    from Some rc have "c = snd (cache_set cache (cache_key_of rt data) r (Some 300) clock)"
      by (auto dest: try_models_cache)
    with b have "cache_in_bounds cache \<longrightarrow> cache_in_bounds c"
      by (simp add: cache_set_in_bounds)
    with None f Some rc b show ?thesis
      by (simp add: predict_loadshedding_miss in_bounds_def)
  qed
qed



theorem predict_loadshedding_in_bounds_witness:
  "probabilities_valid (xgboost_service (proba_model 3 [0.2, 0.7, 0.1]))
   \<and> cache_in_bounds connected_empty_cache
   \<and> (\<exists>r c. predict_loadshedding (xgboost_service (proba_model 3 [0.2, 0.7, 0.1]))
               (stub_runtime (saturday_at 8)) connected_empty_cache 0 no_variation ''t''
               example_record = Inr (r, c)
           \<and> 0 \<le> predicted_stage r \<and> predicted_stage r \<le> 8
           \<and> 0 \<le> confidence_score r \<and> confidence_score r \<le> 1
           \<and> cache_in_bounds c)"
proof -
  have valid: "probabilities_valid (xgboost_service (proba_model 3 [0.2, 0.7, 0.1]))"
    by (auto simp: probabilities_valid_def xgboost_service_def proba_model_def
        split: if_splits)
  have inv: "cache_in_bounds connected_empty_cache"
    by (simp add: cache_in_bounds_def connected_empty_cache_def)
  then have "cache_get connected_empty_cache
        (cache_key_of (stub_runtime (saturday_at 8)) example_record) 0 = None
      \<or> cache_in_bounds connected_empty_cache"
    by simp
  from predict_loadshedding_in_bounds [OF valid this, of no_variation "''t''"] valid inv
  show ?thesis by blast
qed

section \<open>The model-success path\<close>








section \<open>Two calls on the same record\<close>






















end
